theory Spec2Isabelle
  imports Main
begin

section \<open>crawl4ai-mcp: result normalisation, tool entry points and the command line\<close>

text \<open>
  A shallow embedding of \<^verbatim>\<open>src/crawl4ai_mcp\<close>: the settings read by the server
  (\<^verbatim>\<open>config.py\<close>), the output record (\<^verbatim>\<open>types.py\<close>), the normaliser
  \<^verbatim>\<open>handle_crawl_result\<close> and the entry points \<^verbatim>\<open>crawl\<close> and
  \<^verbatim>\<open>deep_crawl\<close> (\<^verbatim>\<open>server.py\<close>), and the command \<^verbatim>\<open>main\<close>
  (\<^verbatim>\<open>main.py\<close>). The crawling library is an external collaborator: what it returns,
  yields or raises is an input of the model.
\<close>

subsection \<open>Python values\<close>

text \<open>
  An optional string is \<^verbatim>\<open>str | None\<close>. Python's truth value of such a value is
  false for \<^verbatim>\<open>None\<close> and for the empty string; \<^verbatim>\<open>a or b\<close> is \<^verbatim>\<open>a\<close> when
  \<^verbatim>\<open>a\<close> is true and \<^verbatim>\<open>b\<close> otherwise.
\<close>

definition truthy :: "string option \<Rightarrow> bool" where
  "truthy s = (case s of None \<Rightarrow> False | Some t \<Rightarrow> t \<noteq> [])"

definition py_or :: "string option \<Rightarrow> string option \<Rightarrow> string option" where
  "py_or a b = (if truthy a then a else b)"

text \<open>
  The exceptions of the model carry the text \<^verbatim>\<open>str(e)\<close>. \<^verbatim>\<open>except Exception\<close>
  catches an \<open>Exception\<close> and lets a \<open>BaseException\<close> that is not one
  (a cancellation, a keyboard interrupt) pass.
\<close>

datatype exn = Exception string | BaseException string

definition IndexError :: exn where
  "IndexError = Exception ''list index out of range''"

subsection \<open>config.py and types.py\<close>

record Settings =
  browser_type :: string
  headless :: bool
  verbose :: bool
  screenshot :: bool
  word_count_threshold :: int
  cache_mode :: string
  max_depth :: int
  max_pages :: int
  include_external :: bool
  content_type :: string

definition settings :: Settings where
  "settings = \<lparr> browser_type = ''chromium'', headless = True, verbose = False,
     screenshot = False, word_count_threshold = 10, cache_mode = ''bypass'',
     max_depth = 2, max_pages = 50, include_external = False,
     content_type = ''markdown'' \<rparr>"

text \<open>
  The collaborator's outcome object, with the fields the server reads. The truth value of
  the markdown object is decided by the collaborator's class, so it is a field of the
  model (\<open>md_bool\<close>); an absent markdown object is \<open>None\<close>, which is false.
\<close>

record MarkdownGenerationResult =
  md_bool :: bool
  fit_markdown :: "string option"
  raw_markdown :: "string option"

record CrawlResult =
  success :: bool
  url :: string
  html :: "string option"
  markdown :: "MarkdownGenerationResult option"
  extracted_content :: "string option"
  error_message :: "string option"

text \<open>
  A value handed to the normaliser: an outcome object, a \<^verbatim>\<open>CrawlResultContainer\<close>
  over a Python list, or any other value, of which the model keeps what
  \<^verbatim>\<open>type(result)\<close> prints as.
\<close>

datatype RunManyReturn =
    Outcome CrawlResult
  | CrawlResultContainer "RunManyReturn list"
  | Other string

fun type_repr :: "RunManyReturn \<Rightarrow> string" where
  "type_repr (Outcome r) = ''<class 'crawl4ai.models.CrawlResult'>''"
| "type_repr (CrawlResultContainer rs) = ''<class 'crawl4ai.models.CrawlResultContainer'>''"
| "type_repr (Other t) = t"

record MCPCrawlResult =
  status :: string
  url :: "string option"
  content :: "string option"
  error_message :: "string option"

subsection \<open>server.py: handle\_crawl\_result\<close>

text \<open>\<^verbatim>\<open>result[0]\<close> on the container's list: Python raises IndexError on an empty list.\<close>

definition getitem0 :: "'a list \<Rightarrow> exn + 'a" where
  "getitem0 xs = (case xs of [] \<Rightarrow> Inl IndexError | x # _ \<Rightarrow> Inr x)"

definition bool_markdown :: "MarkdownGenerationResult option \<Rightarrow> bool" where
  "bool_markdown md = (case md of None \<Rightarrow> False | Some m \<Rightarrow> md_bool m)"

definition handle_crawl_result :: "Settings \<Rightarrow> RunManyReturn \<Rightarrow> exn + MCPCrawlResult" where
  "handle_crawl_result cfg result0 =
     (case (case result0 of CrawlResultContainer rs \<Rightarrow> getitem0 rs | _ \<Rightarrow> Inr result0) of
        Inl e \<Rightarrow> Inl e
      | Inr result \<Rightarrow>
          (case result of
             Outcome r \<Rightarrow>
               if success r \<and> content_type cfg = ''html'' then
                 Inr \<lparr> status = ''success'', url = Some (CrawlResult.url r),
                       content = html r, error_message = None \<rparr>
               else if success r \<and> bool_markdown (markdown r) then
                 (let output_content = py_or (extracted_content r) (Some '''') in
                  if \<not> truthy output_content \<and> bool_markdown (markdown r) then
                    (let output_content =
                           (case markdown r of
                              None \<Rightarrow> None
                            | Some m \<Rightarrow> py_or (fit_markdown m) (raw_markdown m)) in
                     Inr \<lparr> status = ''success'', url = Some (CrawlResult.url r),
                           content = output_content, error_message = None \<rparr>)
                  else
                    Inr \<lparr> status = ''error'', url = None, content = None,
                          error_message =
                            Some ''The crawler failed to extract any valid content.'' \<rparr>)
               else
                 Inr \<lparr> status = ''error'', url = None, content = None,
                       error_message =
                         py_or (CrawlResult.error_message r) (Some ''Unknown crawl error.'') \<rparr>
           | _ \<Rightarrow>
               Inr \<lparr> status = ''error'', url = None, content = None,
                     error_message =
                       Some (''Unexpected result type from crawler: '' @ type_repr result) \<rparr>))"

subsection \<open>The collaborator\<close>

text \<open>
  The crawler session counts the calls the entry points make on it: \<^verbatim>\<open>__aenter__\<close>
  and \<^verbatim>\<open>__aexit__\<close> of \<^verbatim>\<open>async with\<close>, and \<^verbatim>\<open>close\<close>. The three calls
  are taken to return normally, and \<^verbatim>\<open>__aexit__\<close> not to swallow an exception.
  The statement \<^verbatim>\<open>with redirect_stdout(...)\<close> around each fetch stands in the same
  \<^verbatim>\<open>try\<close> body as the fetch: an exception it raises leaves the body as an exception
  of the fetch does, so the raising outcome \<open>Inl e\<close> of a fetch stands for both.
\<close>

record AsyncWebCrawler =
  aenter_calls :: nat
  aexit_calls :: nat
  close_calls :: nat

definition new_AsyncWebCrawler :: AsyncWebCrawler where
  "new_AsyncWebCrawler = \<lparr> aenter_calls = 0, aexit_calls = 0, close_calls = 0 \<rparr>"

definition aenter :: "AsyncWebCrawler \<Rightarrow> AsyncWebCrawler" where
  "aenter crawler = crawler \<lparr> aenter_calls := aenter_calls crawler + 1 \<rparr>"

definition aexit :: "AsyncWebCrawler \<Rightarrow> AsyncWebCrawler" where
  "aexit crawler = crawler \<lparr> aexit_calls := aexit_calls crawler + 1 \<rparr>"

definition close :: "AsyncWebCrawler \<Rightarrow> AsyncWebCrawler" where
  "close crawler = crawler \<lparr> close_calls := close_calls crawler + 1 \<rparr>"

text \<open>
  The traversal strategy built by \<^verbatim>\<open>deep_crawl\<close>, with the arguments the source gives
  it: maximum depth, maximum pages, include-external flag, and for the best-first
  strategy the keywords of its scorer (weight 0.7 in the source).
\<close>

datatype strategy =
    BestFirstCrawlingStrategy int int bool "string list"
  | BFSDeepCrawlStrategy int int bool

text \<open>
  What an awaited fetch gives back: an asynchronous iterator (a state of the
  collaborator's generator) or some other value, kept as the text of its type. One step
  of the iterator, \<^verbatim>\<open>__anext__\<close>, yields a value and a next state, ends the
  iteration, or raises.
\<close>

datatype 's pages = AsyncIterator 's | NotAsyncIterator string

datatype 's anext_result = Yield RunManyReturn 's | StopAsyncIteration | Raises exn

record 's collaborator =
  arun :: "string \<Rightarrow> strategy \<Rightarrow> exn + 's pages"
  arun_many :: "string list \<Rightarrow> exn + 's pages"
  anext :: "'s \<Rightarrow> 's anext_result"

subsection \<open>server.py: the entry points\<close>

text \<open>
  How a block of statements ends: it runs to its end, it executes \<^verbatim>\<open>return\<close>, or an
  exception leaves it. The list \<^verbatim>\<open>results\<close> is mutated in place, so every block
  also gives back the list as it stands.
\<close>

datatype control = Completed | Returned "MCPCrawlResult list" | Raised exn

text \<open>
  The loop \<^verbatim>\<open>async for page in pages: results.append(handle_crawl_result(page))\<close>
  of both entry points. Whether it ends is up to the collaborator's iterator, so the
  function is partial: \<open>None\<close> is a loop that never ends.
\<close>

partial_function (option) async_for ::
  "('s \<Rightarrow> 's anext_result) \<Rightarrow> Settings \<Rightarrow> 's \<Rightarrow> MCPCrawlResult list
     \<Rightarrow> (control \<times> MCPCrawlResult list) option" where
  "async_for nxt cfg it results =
     (case nxt it of
        StopAsyncIteration \<Rightarrow> Some (Completed, results)
      | Raises e \<Rightarrow> Some (Raised e, results)
      | Yield page it' \<Rightarrow>
          (case handle_crawl_result cfg page of
             Inl e \<Rightarrow> Some (Raised e, results)
           | Inr r \<Rightarrow> async_for nxt cfg it' (results @ [r])))"

text \<open>\<^verbatim>\<open>except Exception as e: results.append(MCPCrawlResult(status="error", ...))\<close>\<close>

definition except_Exception ::
  "string \<Rightarrow> control \<times> MCPCrawlResult list \<Rightarrow> control \<times> MCPCrawlResult list" where
  "except_Exception prefix out =
     (case out of
        (Raised (Exception msg), results) \<Rightarrow>
          (Completed,
           results @ [\<lparr> status = ''error'', url = None, content = None,
                        error_message = Some (prefix @ msg) \<rparr>])
      | _ \<Rightarrow> out)"

text \<open>The value of the call after the \<^verbatim>\<open>try\<close> statement: \<^verbatim>\<open>return results\<close>.\<close>

definition return_results :: "control \<times> MCPCrawlResult list \<Rightarrow> exn + MCPCrawlResult list" where
  "return_results out =
     (case out of
        (Completed, results) \<Rightarrow> Inr results
      | (Returned v, _) \<Rightarrow> Inr v
      | (Raised e, _) \<Rightarrow> Inl e)"

text \<open>
  The single result of the early \<^verbatim>\<open>return\<close> when the fetch gave back something that
  is no \<^verbatim>\<open>AsyncIterator\<close>; \<open>t\<close> is the text of \<^verbatim>\<open>type(pages)\<close>.
\<close>

definition not_AsyncIterator :: "string \<Rightarrow> MCPCrawlResult" where
  "not_AsyncIterator t =
     \<lparr> status = ''error'', url = None, content = None,
       error_message = Some (''Expected an AsyncIterator instance from arun, got: '' @ t) \<rparr>"

text \<open>
  Lines 121 to 137 of \<^verbatim>\<open>server.py\<close>: \<^verbatim>\<open>if keywords:\<close> is true for a non-empty list
  only. The other fields of the run configuration are the same in every call and do not
  reach the results, so the fetch of the model takes the start URL and the strategy.
\<close>

definition deep_crawl_strategy :: "Settings \<Rightarrow> string list option \<Rightarrow> strategy" where
  "deep_crawl_strategy cfg keywords =
     (case keywords of
        Some (k # ks) \<Rightarrow>
          BestFirstCrawlingStrategy (max_depth cfg) (max_pages cfg) False (k # ks)
      | _ \<Rightarrow> BFSDeepCrawlStrategy (max_depth cfg) (max_pages cfg) (include_external cfg))"

text \<open>
  \<^verbatim>\<open>deep_crawl\<close>, lines 154 to 185: the session is constructed before the \<^verbatim>\<open>try\<close>
  statement; the body fetches, returns early on a value that is no iterator, and runs
  the loop; the handler of \<^verbatim>\<open>except Exception\<close> appends one error result; the
  \<^verbatim>\<open>finally\<close> block closes the session, whichever way the body and the handler ended.
  The result is the returned list, or the exception that leaves the call, and the
  session as the call leaves it.
\<close>

definition deep_crawl ::
  "'s collaborator \<Rightarrow> Settings \<Rightarrow> string \<Rightarrow> string list option
     \<Rightarrow> ((exn + MCPCrawlResult list) \<times> AsyncWebCrawler) option" where
  "deep_crawl c cfg start keywords =
     (let results = [];
          crawler = new_AsyncWebCrawler;
          body =
            (case arun c start (deep_crawl_strategy cfg keywords) of
               Inl e \<Rightarrow> Some (Raised e, results)
             | Inr (NotAsyncIterator t) \<Rightarrow> Some (Returned [not_AsyncIterator t], results)
             | Inr (AsyncIterator it) \<Rightarrow> async_for (anext c) cfg it results)
      in case body of
           None \<Rightarrow> None
         | Some out \<Rightarrow>
             (let out = except_Exception ''An error occurred during deep crawl: '' out;
                  crawler = close crawler
              in Some (return_results out, crawler)))"

text \<open>
  \<^verbatim>\<open>crawl\<close>, lines 220 to 247: the \<^verbatim>\<open>async with\<close> block stands inside the
  \<^verbatim>\<open>try\<close> statement, so the session is left before the handler runs.
\<close>

definition crawl ::
  "'s collaborator \<Rightarrow> Settings \<Rightarrow> string list
     \<Rightarrow> ((exn + MCPCrawlResult list) \<times> AsyncWebCrawler) option" where
  "crawl c cfg urls =
     (let results = [];
          crawler = aenter new_AsyncWebCrawler;
          body =
            (case arun_many c urls of
               Inl e \<Rightarrow> Some (Raised e, results)
             | Inr (NotAsyncIterator t) \<Rightarrow> Some (Returned [not_AsyncIterator t], results)
             | Inr (AsyncIterator it) \<Rightarrow> async_for (anext c) cfg it results)
      in case body of
           None \<Rightarrow> None
         | Some out \<Rightarrow>
             (let crawler = aexit crawler;
                  out = except_Exception ''An unexpected error occurred during crawl: '' out
              in Some (return_results out, crawler)))"

subsection \<open>main.py\<close>

text \<open>
  The option \<^verbatim>\<open>--transport\<close> of the command: \<^verbatim>\<open>click.Choice\<close> refuses a value
  outside its choices with a usage error, and an omitted option takes the default.
\<close>

datatype cli = UsageError | AppRun string

definition transport_choices :: "string list" where
  "transport_choices = [''stdio'', ''html'']"

definition transport_default :: string where
  "transport_default = ''stdio''"

definition main :: "string \<Rightarrow> cli" where
  "main transport =
     (if transport = ''http'' then AppRun ''streamable-http'' else AppRun ''stdio'')"

definition main_command :: "string option \<Rightarrow> cli" where
  "main_command arg =
     (let transport = (case arg of None \<Rightarrow> transport_default | Some v \<Rightarrow> v)
      in if transport \<in> set transport_choices then main transport else UsageError)"

subsection \<open>What the collaborator does, and concrete inputs\<close>

text \<open>
  \<open>raises_after nxt it xs e\<close>: started in state \<open>it\<close>, the iterator yields exactly the
  values \<open>xs\<close>, in this order, and its next step raises \<open>e\<close>.
  \<open>ends_within nxt it n\<close>: started in state \<open>it\<close>, the iterator stops or raises after
  at most \<open>n\<close> yielded values.
\<close>

fun raises_after ::
  "('s \<Rightarrow> 's anext_result) \<Rightarrow> 's \<Rightarrow> RunManyReturn list \<Rightarrow> exn \<Rightarrow> bool" where
  "raises_after nxt it [] e = (case nxt it of Raises e' \<Rightarrow> e' = e | _ \<Rightarrow> False)"
| "raises_after nxt it (x # xs) e =
     (case nxt it of Yield y it' \<Rightarrow> y = x \<and> raises_after nxt it' xs e | _ \<Rightarrow> False)"

fun ends_within :: "('s \<Rightarrow> 's anext_result) \<Rightarrow> 's \<Rightarrow> nat \<Rightarrow> bool" where
  "ends_within nxt it 0 = (case nxt it of Yield y it' \<Rightarrow> False | _ \<Rightarrow> True)"
| "ends_within nxt it (Suc n) =
     (case nxt it of Yield y it' \<Rightarrow> ends_within nxt it' n | _ \<Rightarrow> True)"

text \<open>
  The fetch of \<^verbatim>\<open>deep_crawl\<close> raises, returns something that is no iterator, or
  returns an iterator that ends within \<open>n\<close> yielded values.
\<close>

definition iterator_ends ::
  "'s collaborator \<Rightarrow> Settings \<Rightarrow> string \<Rightarrow> string list option \<Rightarrow> nat \<Rightarrow> bool" where
  "iterator_ends c cfg start keywords n =
     (case arun c start (deep_crawl_strategy cfg keywords) of
        Inr (AsyncIterator it) \<Rightarrow> ends_within (anext c) it n
      | _ \<Rightarrow> True)"

text \<open>
  The outcome of the spec's scenario (success, no HTML body, markdown with fit variant
  \<^verbatim>\<open>A\<close> and raw variant \<^verbatim>\<open>B\<close>), and a collaborator whose iterator yields this
  outcome once and then raises.
\<close>

definition page_x :: CrawlResult where
  "page_x = \<lparr> success = True, url = ''http://x'', html = None,
              markdown = Some \<lparr> md_bool = True, fit_markdown = Some ''A'',
                                raw_markdown = Some ''B'' \<rparr>,
              extracted_content = None, error_message = None \<rparr>"

definition flaky :: "nat collaborator" where
  "flaky = \<lparr> arun = (\<lambda>start s. Inr (AsyncIterator 0)),
             arun_many = (\<lambda>urls. Inr (AsyncIterator 0)),
             anext = (\<lambda>k. if k = 0 then Yield (Outcome page_x) 1
                           else Raises (Exception ''connection reset'')) \<rparr>"

text \<open>
  The same collaborator, but the iterator is cancelled after its first value: the
  exception it raises is a \<open>BaseException\<close> that is no \<open>Exception\<close>.
\<close>

definition cancelled :: "nat collaborator" where
  "cancelled = \<lparr> arun = (\<lambda>start s. Inr (AsyncIterator 0)),
                 arun_many = (\<lambda>urls. Inr (AsyncIterator 0)),
                 anext = (\<lambda>k. if k = 0 then Yield (Outcome page_x) 1
                               else Raises (BaseException ''cancelled'')) \<rparr>"

section \<open>Properties\<close>

subsection \<open>Auxiliary facts\<close>

lemma truthy_simps:
  "truthy None = False" "truthy (Some s) = (s \<noteq> [])"
  by (simp_all add: truthy_def)

lemma py_or_default_present: "\<exists>y. py_or a (Some b) = Some y"
  by (cases a) (simp_all add: py_or_def truthy_def)

text \<open>The \<^verbatim>\<open>if\<close>/\<^verbatim>\<open>elif\<close> chain on an outcome object, flattened.\<close>

lemma handle_Outcome_cases:
  "handle_crawl_result cfg (Outcome r) =
     (if success r \<and> content_type cfg = ''html'' then
        Inr \<lparr> status = ''success'', url = Some (CrawlResult.url r),
              content = html r, error_message = None \<rparr>
      else if success r \<and> bool_markdown (markdown r) \<and> \<not> truthy (extracted_content r) then
        Inr \<lparr> status = ''success'', url = Some (CrawlResult.url r),
              content = (case markdown r of None \<Rightarrow> None
                         | Some m \<Rightarrow> py_or (fit_markdown m) (raw_markdown m)),
              error_message = None \<rparr>
      else if success r \<and> bool_markdown (markdown r) then
        Inr \<lparr> status = ''error'', url = None, content = None,
              error_message = Some ''The crawler failed to extract any valid content.'' \<rparr>
      else
        Inr \<lparr> status = ''error'', url = None, content = None,
              error_message =
                py_or (CrawlResult.error_message r) (Some ''Unknown crawl error.'') \<rparr>)"
  by (simp add: handle_crawl_result_def Let_def py_or_def truthy_simps)

lemma handle_Container_Cons:
  "handle_crawl_result cfg (CrawlResultContainer (Outcome r # rest)) =
   handle_crawl_result cfg (Outcome r)"
  by (simp add: handle_crawl_result_def getitem0_def)

lemma handle_page_x:
  "handle_crawl_result settings (Outcome page_x) =
   Inr \<lparr> status = ''success'', url = Some ''http://x'', content = Some ''A'',
         error_message = None \<rparr>"
  by (simp add: handle_Outcome_cases page_x_def settings_def bool_markdown_def
      py_or_def truthy_simps)

lemma shape_Outcome:
  assumes "handle_crawl_result cfg (Outcome r) = Inr out"
  shows "(status out = ''success'' \<longrightarrow>
            MCPCrawlResult.url out \<noteq> None \<and> MCPCrawlResult.error_message out = None \<and>
            content out =
              (if content_type cfg = ''html'' then html r
               else case markdown r of None \<Rightarrow> None
                    | Some m \<Rightarrow> py_or (fit_markdown m) (raw_markdown m))) \<and>
         (status out = ''error'' \<longrightarrow>
            content out = None \<and> MCPCrawlResult.url out = None \<and>
            MCPCrawlResult.error_message out \<noteq> None)"
  using assms
  by (auto simp: handle_Outcome_cases py_or_default_present split: if_splits)

text \<open>The loop on an iterator that raises after the values \<open>xs\<close>, and on one that ends.\<close>

lemma async_for_raises_after:
  "raises_after nxt it xs e \<Longrightarrow> map (handle_crawl_result cfg) xs = map Inr rs \<Longrightarrow>
   async_for nxt cfg it acc = Some (Raised e, acc @ rs)"
proof (induction xs arbitrary: it acc rs)
  case Nil
  then show ?case
    by (subst async_for.simps) (simp split: anext_result.splits)
next
  case (Cons x xs)
  from Cons.prems(2) obtain r rs' where rs: "rs = r # rs'"
    and hx: "handle_crawl_result cfg x = Inr r"
    and tl: "map (handle_crawl_result cfg) xs = map Inr rs'"
    by (cases rs) auto
  from Cons.prems(1) obtain it' where step: "nxt it = Yield x it'"
    and rest: "raises_after nxt it' xs e"
    by (auto split: anext_result.splits)
  have "async_for nxt cfg it acc = async_for nxt cfg it' (acc @ [r])"
    by (subst async_for.simps) (simp add: step hx)
  also have "\<dots> = Some (Raised e, (acc @ [r]) @ rs')"
    by (rule Cons.IH[OF rest tl])
  finally show ?case by (simp add: rs)
qed

lemma async_for_ends:
  "ends_within nxt it n \<Longrightarrow> \<exists>out. async_for nxt cfg it acc = Some out"
proof (induction n arbitrary: it acc)
  case 0
  then show ?case
    by (subst async_for.simps) (simp split: anext_result.splits)
next
  case (Suc n)
  show ?case
  proof (cases "nxt it")
    case (Yield y it')
    with Suc.prems have "ends_within nxt it' n" by simp
    from Suc.IH[OF this] show ?thesis
      by (subst async_for.simps) (simp add: Yield split: sum.splits)
  next
    case StopAsyncIteration
    then show ?thesis by (subst async_for.simps) simp
  next
    case (Raises e)
    then show ?thesis by (subst async_for.simps) simp
  qed
qed

text \<open>
  An empty container among the yielded values: the IndexError of the normaliser ends the
  loop and is caught by the handler of the entry point.
\<close>

lemma crawl_catches_IndexError:
  assumes "arun_many c urls = Inr (AsyncIterator it)"
    and "anext c it = Yield (CrawlResultContainer []) it'"
  shows "crawl c cfg urls =
         Some (Inr [\<lparr> status = ''error'', url = None, content = None,
                      error_message =
                        Some ''An unexpected error occurred during crawl: list index out of range'' \<rparr>],
               aexit (aenter new_AsyncWebCrawler))"
proof -
  have "async_for (anext c) cfg it [] = Some (Raised IndexError, [])"
    by (subst async_for.simps) (simp add: assms(2) handle_crawl_result_def getitem0_def)
  with assms(1) show ?thesis
    by (simp add: crawl_def except_Exception_def return_results_def IndexError_def)
qed

lemma deep_crawl_catches_IndexError:
  assumes "arun c start (deep_crawl_strategy cfg keywords) = Inr (AsyncIterator it)"
    and "anext c it = Yield (CrawlResultContainer []) it'"
  shows "deep_crawl c cfg start keywords =
         Some (Inr [\<lparr> status = ''error'', url = None, content = None,
                      error_message =
                        Some ''An error occurred during deep crawl: list index out of range'' \<rparr>],
               close new_AsyncWebCrawler)"
proof -
  have "async_for (anext c) cfg it [] = Some (Raised IndexError, [])"
    by (subst async_for.simps) (simp add: assms(2) handle_crawl_result_def getitem0_def)
  with assms(1) show ?thesis
    by (simp add: deep_crawl_def except_Exception_def return_results_def IndexError_def)
qed

lemma close_calls_close: "close_calls (close new_AsyncWebCrawler) = 1"
  by (simp add: close_def new_AsyncWebCrawler_def)

subsection \<open>The normaliser\<close>

text \<open>
  C1. An outcome with success flag true, a markdown object that is true and a non-empty
  extracted-content field, under output content type \<^verbatim>\<open>markdown\<close>, is normalised to
  status \<^verbatim>\<open>error\<close> with the message "The crawler failed to extract any valid
  content.": the extracted content is never returned.
\<close>

theorem pre_extracted_content_is_error:
  assumes "success r" and "bool_markdown (markdown r)"
    and "truthy (extracted_content r)" and "content_type cfg = ''markdown''"
  shows "handle_crawl_result cfg (Outcome r) =
         Inr \<lparr> status = ''error'', url = None, content = None,
               error_message = Some ''The crawler failed to extract any valid content.'' \<rparr>"
  using assms by (simp add: handle_crawl_result_def py_or_def)

theorem pre_extracted_content_is_error_witness:
  "handle_crawl_result settings
     (Outcome \<lparr> success = True, url = ''http://x'', html = Some ''<p>A</p>'',
                markdown = Some \<lparr> md_bool = True, fit_markdown = Some ''A'',
                                  raw_markdown = Some ''B'' \<rparr>,
                extracted_content = Some ''{}'', error_message = None \<rparr>) =
   Inr \<lparr> status = ''error'', url = None, content = None,
         error_message = Some ''The crawler failed to extract any valid content.'' \<rparr>"
  by (rule pre_extracted_content_is_error)
     (simp_all add: bool_markdown_def truthy_simps settings_def)

text \<open>
  C2, as the claim states it, fails: on a container over an empty list the indexing
  \<^verbatim>\<open>result[0]\<close> raises IndexError, and the normaliser has no handler for it.
\<close>

theorem empty_container_raises:
  "handle_crawl_result settings (CrawlResultContainer []) =
   Inl (Exception ''list index out of range'')"
  by (simp add: handle_crawl_result_def getitem0_def IndexError_def)

text \<open>
  C2, amended. On an empty container the normaliser raises IndexError; on every other
  input (an outcome, a non-empty container, any unrelated value) it returns one result
  record, whose status is \<^verbatim>\<open>success\<close> or \<^verbatim>\<open>error\<close>, and does not raise.
\<close>

theorem handle_crawl_result_total_amended:
  "(result = CrawlResultContainer [] \<longrightarrow> handle_crawl_result cfg result = Inl IndexError) \<and>
   (result \<noteq> CrawlResultContainer [] \<longrightarrow>
      (\<exists>out. handle_crawl_result cfg result = Inr out \<and>
             (status out = ''success'' \<or> status out = ''error'')))"
proof (cases result)
  case (Outcome r)
  then show ?thesis
    by (simp add: handle_crawl_result_def Let_def)
next
  case (CrawlResultContainer rs)
  show ?thesis
  proof (cases rs)
    case Nil
    with CrawlResultContainer show ?thesis
      by (simp add: handle_crawl_result_def getitem0_def)
  next
    case (Cons x xs)
    then show ?thesis
      by (cases x)
         (simp_all add: CrawlResultContainer handle_crawl_result_def getitem0_def Let_def)
  qed
next
  case (Other t)
  then show ?thesis
    by (simp add: handle_crawl_result_def)
qed

theorem handle_crawl_result_total_amended_witness:
  "(\<exists>out. handle_crawl_result settings (Other ''<class 'str'>'') = Inr out \<and>
          (status out = ''success'' \<or> status out = ''error'')) \<and>
   (\<exists>out. handle_crawl_result settings (CrawlResultContainer [Other ''<class 'int'>'']) = Inr out \<and>
          (status out = ''success'' \<or> status out = ''error'')) \<and>
   handle_crawl_result settings (CrawlResultContainer []) = Inl IndexError"
  using handle_crawl_result_total_amended[of "Other ''<class 'str'>''" settings]
    handle_crawl_result_total_amended[of "CrawlResultContainer [Other ''<class 'int'>'']" settings]
    handle_crawl_result_total_amended[of "CrawlResultContainer []" settings]
  by simp

text \<open>
  C3, as the claim states it, fails: under output content type \<^verbatim>\<open>html\<close> a successful
  outcome whose HTML body is null is normalised to status \<^verbatim>\<open>success\<close> with no content.
\<close>

theorem success_with_null_content:
  "handle_crawl_result (settings \<lparr> content_type := ''html'' \<rparr>)
     (Outcome \<lparr> success = True, url = ''http://x'', html = None, markdown = None,
                extracted_content = None, error_message = None \<rparr>) =
   Inr \<lparr> status = ''success'', url = Some ''http://x'', content = None,
         error_message = None \<rparr>"
  by (simp add: handle_crawl_result_def settings_def)

text \<open>
  C3, amended. Every result the normaliser returns has this shape: with status
  \<^verbatim>\<open>success\<close> the url is present, the error message is absent, and the content is the
  body selected from the (first) outcome as it is, so it is present unless that body is
  null: the raw HTML body under content type \<^verbatim>\<open>html\<close>, and otherwise the fit variant of
  the markdown object when non-empty and else its raw variant. With status
  \<^verbatim>\<open>error\<close> content and url are absent and the error message is present.
\<close>

theorem shape_invariant_amended:
  assumes "handle_crawl_result cfg result = Inr out"
  shows "(status out = ''success'' \<longrightarrow>
            MCPCrawlResult.url out \<noteq> None \<and> MCPCrawlResult.error_message out = None \<and>
            (\<exists>r. (result = Outcome r \<or>
                   (\<exists>rest. result = CrawlResultContainer (Outcome r # rest))) \<and>
                 content out =
                   (if content_type cfg = ''html'' then html r
                    else case markdown r of None \<Rightarrow> None
                         | Some m \<Rightarrow> py_or (fit_markdown m) (raw_markdown m)))) \<and>
         (status out = ''error'' \<longrightarrow>
            content out = None \<and> MCPCrawlResult.url out = None \<and>
            MCPCrawlResult.error_message out \<noteq> None)"
proof (cases result)
  case (Outcome r)
  with shape_Outcome[of cfg r out] assms show ?thesis by blast
next
  case outer: (CrawlResultContainer rs)
  show ?thesis
  proof (cases rs)
    case Nil
    with assms outer show ?thesis
      by (simp add: handle_crawl_result_def getitem0_def)
  next
    case (Cons x xs)
    show ?thesis
    proof (cases x)
      case (Outcome r)
      with assms outer Cons
      have "handle_crawl_result cfg (Outcome r) = Inr out"
        by (simp add: handle_Container_Cons)
      from shape_Outcome[OF this] outer Cons Outcome show ?thesis by blast
    next
      case (CrawlResultContainer ys)
      with assms outer Cons show ?thesis
        by (auto simp: handle_crawl_result_def getitem0_def)
    next
      case (Other t)
      with assms outer Cons show ?thesis
        by (auto simp: handle_crawl_result_def getitem0_def)
    qed
  qed
next
  case (Other t)
  with assms show ?thesis
    by (auto simp: handle_crawl_result_def)
qed

theorem shape_invariant_amended_witness:
  "handle_crawl_result settings (Outcome page_x) =
     Inr \<lparr> status = ''success'', url = Some ''http://x'', content = Some ''A'',
           error_message = None \<rparr> \<and>
   (\<exists>r. (Outcome page_x = Outcome r \<or>
          (\<exists>rest. Outcome page_x = CrawlResultContainer (Outcome r # rest))) \<and>
        Some ''A'' =
          (if content_type settings = ''html'' then html r
           else case markdown r of None \<Rightarrow> None
                | Some m \<Rightarrow> py_or (fit_markdown m) (raw_markdown m)))"
  using shape_invariant_amended[OF handle_page_x] handle_page_x
  by simp

text \<open>
  C4. An outcome with success flag true, under output content type \<^verbatim>\<open>html\<close>, is
  normalised to status \<^verbatim>\<open>success\<close> with the outcome's url and, as content, its raw HTML
  body as it is: an empty or null body is passed on, with no fallback.
\<close>

theorem html_content_verbatim:
  assumes "success r" and "content_type cfg = ''html''"
  shows "handle_crawl_result cfg (Outcome r) =
         Inr \<lparr> status = ''success'', url = Some (CrawlResult.url r),
               content = html r, error_message = None \<rparr>"
  using assms by (simp add: handle_crawl_result_def)

theorem html_content_verbatim_witness:
  "handle_crawl_result (settings \<lparr> content_type := ''html'' \<rparr>)
     (Outcome (page_x \<lparr> html := Some '''' \<rparr>)) =
   Inr \<lparr> status = ''success'', url = Some ''http://x'', content = Some '''',
         error_message = None \<rparr>"
  using html_content_verbatim[of "page_x \<lparr> html := Some '''' \<rparr>"
      "settings \<lparr> content_type := ''html'' \<rparr>"]
  by (simp add: page_x_def)

text \<open>
  C5. An outcome with success flag true, empty (or absent) extracted content and a
  markdown object that is true, under output content type \<^verbatim>\<open>markdown\<close>, is normalised
  to status \<^verbatim>\<open>success\<close> with the outcome's url; the content is the fit variant of the
  markdown object when that variant is non-empty and its raw variant otherwise.
\<close>

theorem markdown_fit_then_raw:
  assumes "success r" and "\<not> truthy (extracted_content r)"
    and "markdown r = Some m" and "md_bool m"
    and "content_type cfg = ''markdown''"
  shows "handle_crawl_result cfg (Outcome r) =
         Inr \<lparr> status = ''success'', url = Some (CrawlResult.url r),
               content = (if truthy (fit_markdown m) then fit_markdown m else raw_markdown m),
               error_message = None \<rparr>"
  using assms by (simp add: handle_Outcome_cases bool_markdown_def py_or_def)

theorem markdown_fit_then_raw_witness:
  "handle_crawl_result settings
     (Outcome (page_x \<lparr> markdown := Some \<lparr> md_bool = True, fit_markdown = Some '''',
                                           raw_markdown = Some ''B'' \<rparr> \<rparr>)) =
   Inr \<lparr> status = ''success'', url = Some ''http://x'', content = Some ''B'',
         error_message = None \<rparr>"
  using markdown_fit_then_raw[of
      "page_x \<lparr> markdown := Some \<lparr> md_bool = True, fit_markdown = Some '''',
                                    raw_markdown = Some ''B'' \<rparr> \<rparr>"
      "\<lparr> md_bool = True, fit_markdown = Some '''', raw_markdown = Some ''B'' \<rparr>" settings]
  by (simp add: page_x_def settings_def truthy_simps)

text \<open>
  C6. An outcome with success flag false is normalised, under every content type, to
  status \<^verbatim>\<open>error\<close> with url and content absent; the error message is the outcome's own
  message when that is non-empty, and "Unknown crawl error." when it is empty or absent.
\<close>

theorem failed_outcome_is_error:
  assumes "\<not> success r"
  shows "handle_crawl_result cfg (Outcome r) =
         Inr \<lparr> status = ''error'', url = None, content = None,
               error_message =
                 (case CrawlResult.error_message r of
                    None \<Rightarrow> Some ''Unknown crawl error.''
                  | Some msg \<Rightarrow> if msg = [] then Some ''Unknown crawl error.'' else Some msg) \<rparr>"
  using assms
  by (simp add: handle_Outcome_cases py_or_def truthy_def split: option.splits)

theorem failed_outcome_is_error_witness:
  "handle_crawl_result settings
     (Outcome \<lparr> success = False, url = ''http://x'', html = None, markdown = None,
                extracted_content = None, error_message = Some '''' \<rparr>) =
   Inr \<lparr> status = ''error'', url = None, content = None,
         error_message = Some ''Unknown crawl error.'' \<rparr>"
  using failed_outcome_is_error[of
      "\<lparr> success = False, url = ''http://x'', html = None, markdown = None,
         extracted_content = None, error_message = Some '''' \<rparr>" settings]
  by simp

text \<open>
  C7. A container over a non-empty list of outcome objects is normalised as its first
  element is; so a container of exactly one outcome gives what the outcome itself gives.
\<close>

theorem container_is_first_element:
  "handle_crawl_result cfg (CrawlResultContainer (Outcome r # map Outcome rest)) =
   handle_crawl_result cfg (Outcome r)"
  by (simp add: handle_crawl_result_def getitem0_def)

theorem container_is_first_element_witness:
  "handle_crawl_result settings (CrawlResultContainer [Outcome page_x]) =
   Inr \<lparr> status = ''success'', url = Some ''http://x'', content = Some ''A'',
         error_message = None \<rparr>"
  using container_is_first_element[of settings page_x "[]"]
  by (simp add: handle_page_x)

subsection \<open>The entry points\<close>

text \<open>
  C8, as the claim states it, fails: the handler is \<^verbatim>\<open>except Exception\<close>, so an
  exception of the sequence that is no \<^verbatim>\<open>Exception\<close> (a cancellation, a keyboard
  interrupt) leaves the call, and the result normalised before it is not returned.
\<close>

theorem crawl_raises_BaseException:
  "crawl cancelled settings [''http://a'', ''http://b''] =
   Some (Inl (BaseException ''cancelled''), aexit (aenter new_AsyncWebCrawler))"
  using async_for_raises_after[of "anext cancelled" 0 "[Outcome page_x]"
      "BaseException ''cancelled''" settings
      "[\<lparr> status = ''success'', url = Some ''http://x'', content = Some ''A'',
          error_message = None \<rparr>]" "[]"]
  by (simp add: crawl_def cancelled_def handle_page_x except_Exception_def
      return_results_def)

text \<open>
  C8, amended. In a call of the multi-URL entry point \<^verbatim>\<open>crawl\<close> in which the
  collaborator's asynchronous sequence yields some values, each of them normalised, and
  then raises: when the exception is an \<^verbatim>\<open>Exception\<close>, the operation does not raise
  and returns the results normalised so far, unchanged and in order, followed by exactly
  one error result that holds the exception's message (a sequence that raises after one
  success gives a list of length 2); when it is a \<^verbatim>\<open>BaseException\<close> that is no
  \<^verbatim>\<open>Exception\<close>, the operation raises it.
\<close>

theorem crawl_partial_results_amended:
  assumes "arun_many c urls = Inr (AsyncIterator it)"
    and "raises_after (anext c) it yielded e"
    and "map (handle_crawl_result cfg) yielded = map Inr normalized"
  shows "crawl c cfg urls =
         Some (case e of
                 Exception msg \<Rightarrow>
                   Inr (normalized @
                        [\<lparr> status = ''error'', url = None, content = None,
                           error_message =
                             Some (''An unexpected error occurred during crawl: '' @ msg) \<rparr>])
               | BaseException msg \<Rightarrow> Inl (BaseException msg),
               aexit (aenter new_AsyncWebCrawler))"
  using async_for_raises_after[OF assms(2,3), of "[]"] assms(1)
  by (cases e) (simp_all add: crawl_def except_Exception_def return_results_def)

theorem crawl_partial_results_amended_witness:
  "crawl flaky settings [''http://a'', ''http://b''] =
   Some (Inr [\<lparr> status = ''success'', url = Some ''http://x'', content = Some ''A'',
                error_message = None \<rparr>,
              \<lparr> status = ''error'', url = None, content = None,
                error_message =
                  Some ''An unexpected error occurred during crawl: connection reset'' \<rparr>],
         aexit (aenter new_AsyncWebCrawler))"
  using crawl_partial_results_amended[of flaky "[''http://a'', ''http://b'']" 0
      "[Outcome page_x]" "Exception ''connection reset''" settings
      "[\<lparr> status = ''success'', url = Some ''http://x'', content = Some ''A'',
          error_message = None \<rparr>]"]
  by (simp add: flaky_def handle_page_x)

text \<open>
  C9. Every execution of the deep-crawl entry point that returns (with a result list or
  with an exception that \<^verbatim>\<open>except Exception\<close> lets pass) has called \<^verbatim>\<open>close\<close> on
  its crawler session exactly once; and the entry point does return whenever the fetch
  raises, returns something that is no asynchronous sequence, or returns a sequence that
  stops or raises after finitely many values.
\<close>

theorem deep_crawl_closes_session_once:
  "(\<forall>ret crawler. deep_crawl c cfg start keywords = Some (ret, crawler)
       \<longrightarrow> close_calls crawler = 1) \<and>
   (iterator_ends c cfg start keywords n
       \<longrightarrow> (\<exists>ret crawler. deep_crawl c cfg start keywords = Some (ret, crawler)))"
proof
  show "\<forall>ret crawler. deep_crawl c cfg start keywords = Some (ret, crawler)
       \<longrightarrow> close_calls crawler = 1"
    by (auto simp: deep_crawl_def Let_def close_calls_close split: option.splits)
next
  show "iterator_ends c cfg start keywords n
       \<longrightarrow> (\<exists>ret crawler. deep_crawl c cfg start keywords = Some (ret, crawler))"
  proof
    assume ends: "iterator_ends c cfg start keywords n"
    have "\<exists>out. (case arun c start (deep_crawl_strategy cfg keywords) of
               Inl e \<Rightarrow> Some (Raised e, [])
             | Inr (NotAsyncIterator t) \<Rightarrow> Some (Returned [not_AsyncIterator t], [])
             | Inr (AsyncIterator it) \<Rightarrow> async_for (anext c) cfg it []) = Some out"
      using ends async_for_ends[of "anext c" _ n cfg "[]"]
      by (auto simp: iterator_ends_def split: sum.splits pages.splits)
    then show "\<exists>ret crawler. deep_crawl c cfg start keywords = Some (ret, crawler)"
      by (auto simp: deep_crawl_def Let_def)
  qed
qed

theorem deep_crawl_closes_session_once_witness:
  "iterator_ends flaky settings ''http://x'' None 1 \<and>
   (\<exists>ret crawler. deep_crawl flaky settings ''http://x'' None = Some (ret, crawler) \<and>
                  close_calls crawler = 1)"
proof -
  have ends: "iterator_ends flaky settings ''http://x'' None 1"
    by (simp add: iterator_ends_def flaky_def)
  from deep_crawl_closes_session_once[of flaky settings "''http://x''" None 1] ends
  show ?thesis by blast
qed

subsection \<open>The command line\<close>

text \<open>
  C10. The command accepts \<^verbatim>\<open>--transport html\<close>, and then runs the server over the
  standard-input/output channel: \<^verbatim>\<open>main\<close> compares the value with \<^verbatim>\<open>http\<close>, which
  is not among the choices, so the streamable-HTTP branch is never taken.
\<close>

theorem html_transport_runs_stdio:
  "main_command (Some ''html'') = AppRun ''stdio''"
  by (simp add: main_command_def main_def transport_choices_def)

end
